theory Spec2Isabelle
  imports Main
begin

section \<open>Python values the program handles\<close>

subsection \<open>decimal.Decimal under the default context\<close>

text \<open>
  The balance and every amount are \<^verbatim>\<open>decimal.Decimal\<close> values. The program never changes
  the decimal context, so the arithmetic is that of the default context: 28 significant
  digits, rounding ROUND_HALF_EVEN, exponents between -999999 and 999999, and the signals
  InvalidOperation, DivisionByZero and Overflow trapped (raised as exceptions).

  A value is Python's triple (sign, coefficient, exponent), or an infinity, or a quiet or
  signalling NaN with its payload.
\<close>

datatype decimal =
    Finite bool nat int
  | Infinity bool
  | NaN bool nat
  | sNaN bool nat

datatype signal = InvalidOperation | Overflow

definition prec :: nat where
  "prec = 28"

definition Emax :: int where
  "Emax = 999999"

definition Emin :: int where
  "Emin = - 999999"

definition Etiny :: int where
  "Etiny = Emin - int prec + 1"

definition Etop :: int where
  "Etop = Emax - int prec + 1"

text \<open>The number of decimal digits of a coefficient: \<^verbatim>\<open>len(str(c))\<close>.\<close>

fun ndigits :: "nat \<Rightarrow> nat" where
  "ndigits c = (if c < 10 then 1 else Suc (ndigits (c div 10)))"

text \<open>Dropping the last \<open>k\<close> digits of a coefficient, rounding half to even.\<close>

definition round_half_even :: "nat \<Rightarrow> nat \<Rightarrow> nat" where
  "round_half_even c k =
     (let q = c div 10 ^ k; r = c mod 10 ^ k
      in if 10 ^ k < 2 * r then q + 1
         else if 2 * r = 10 ^ k \<and> odd q then q + 1
         else q)"

text \<open>
  \<^verbatim>\<open>Decimal._fix\<close>: the result of an operation brought into the context. A zero keeps its
  sign and has its exponent clamped; a coefficient of more than \<open>prec\<close> digits is rounded;
  a result beyond \<open>Emax\<close> raises Overflow; a subnormal result is rounded at \<open>Etiny\<close>
  (Underflow, Subnormal, Inexact, Rounded and Clamped are not trapped).
\<close>

definition dec_fix :: "bool \<Rightarrow> nat \<Rightarrow> int \<Rightarrow> signal + decimal" where
  "dec_fix sign c e =
     (if c = 0 then Inr (Finite sign 0 (min (max e Etiny) Emax))
      else
        let exp_min0 = int (ndigits c) + e - int prec
        in if Etop < exp_min0 then Inl Overflow
           else
             let exp_min = (if exp_min0 < Etiny then Etiny else exp_min0)
             in if e < exp_min then
                  let coeff = round_half_even c (nat (exp_min - e));
                      carry = (prec < ndigits coeff);
                      coeff' = (if carry then coeff div 10 else coeff);
                      exp_min' = (if carry then exp_min + 1 else exp_min)
                  in if Etop < exp_min' then Inl Overflow
                     else Inr (Finite sign coeff' exp_min')
                else Inr (Finite sign c e))"

text \<open>
  \<^verbatim>\<open>Decimal._check_nans\<close>: a signalling NaN operand raises InvalidOperation, a quiet NaN
  operand is the result (its payload cut to \<open>prec\<close> digits), the first operand first.
\<close>

definition fix_nan :: "bool \<Rightarrow> nat \<Rightarrow> decimal" where
  "fix_nan sign payload = NaN sign (payload mod 10 ^ prec)"

fun check_nans :: "decimal \<Rightarrow> decimal \<Rightarrow> (signal + decimal) option" where
  "check_nans (sNaN s p) b = Some (Inl InvalidOperation)"
| "check_nans a (sNaN s p) = Some (Inl InvalidOperation)"
| "check_nans (NaN s p) b = Some (Inr (fix_nan s p))"
| "check_nans a (NaN s p) = Some (Inr (fix_nan s p))"
| "check_nans a b = None"

definition signed :: "bool \<Rightarrow> nat \<Rightarrow> int" where
  "signed sign c = (if sign then - int c else int c)"

text \<open>
  \<^verbatim>\<open>Decimal.__add__\<close>: the exact sum at the smaller exponent, then \<open>dec_fix\<close>. A zero sum is
  negative only when both operands are negative zeros. The last branch of the case is never
  taken: a pair with a NaN operand was answered by \<open>check_nans\<close>.
\<close>

definition dec_add :: "decimal \<Rightarrow> decimal \<Rightarrow> signal + decimal" where
  "dec_add a b =
     (case check_nans a b of
        Some r \<Rightarrow> r
      | None \<Rightarrow>
          (case (a, b) of
             (Infinity s1, Infinity s2) \<Rightarrow> if s1 = s2 then Inr (Infinity s1) else Inl InvalidOperation
           | (Infinity s1, _) \<Rightarrow> Inr (Infinity s1)
           | (_, Infinity s2) \<Rightarrow> Inr (Infinity s2)
           | (Finite s1 c1 e1, Finite s2 c2 e2) \<Rightarrow>
               (let e = min e1 e2;
                    v = signed s1 c1 * 10 ^ nat (e1 - e) + signed s2 c2 * 10 ^ nat (e2 - e)
                in dec_fix (if v = 0 then s1 \<and> s2 else v < 0) (nat \<bar>v\<bar>) e)
           | _ \<Rightarrow> Inl InvalidOperation))"

text \<open>\<^verbatim>\<open>Decimal.copy_negate\<close>.\<close>

fun copy_negate :: "decimal \<Rightarrow> decimal" where
  "copy_negate (Finite s c e) = Finite (\<not> s) c e"
| "copy_negate (Infinity s) = Infinity (\<not> s)"
| "copy_negate (NaN s p) = NaN (\<not> s) p"
| "copy_negate (sNaN s p) = sNaN (\<not> s) p"

text \<open>\<^verbatim>\<open>Decimal.__sub__\<close>: the NaN check on the operands as given, then \<open>a + (-b)\<close>.\<close>

definition dec_sub :: "decimal \<Rightarrow> decimal \<Rightarrow> signal + decimal" where
  "dec_sub a b =
     (case check_nans a b of
        Some r \<Rightarrow> r
      | None \<Rightarrow> dec_add a (copy_negate b))"

text \<open>\<^verbatim>\<open>Decimal.__mul__\<close>: infinity times zero raises InvalidOperation.\<close>

definition dec_mul :: "decimal \<Rightarrow> decimal \<Rightarrow> signal + decimal" where
  "dec_mul a b =
     (case check_nans a b of
        Some r \<Rightarrow> r
      | None \<Rightarrow>
          (case (a, b) of
             (Infinity s1, Infinity s2) \<Rightarrow> Inr (Infinity (s1 \<noteq> s2))
           | (Infinity s1, Finite s2 c2 e2) \<Rightarrow>
               if c2 = 0 then Inl InvalidOperation else Inr (Infinity (s1 \<noteq> s2))
           | (Finite s1 c1 e1, Infinity s2) \<Rightarrow>
               if c1 = 0 then Inl InvalidOperation else Inr (Infinity (s1 \<noteq> s2))
           | (Finite s1 c1 e1, Finite s2 c2 e2) \<Rightarrow> dec_fix (s1 \<noteq> s2) (c1 * c2) (e1 + e2)
           | _ \<Rightarrow> Inl InvalidOperation))"

text \<open>
  \<^verbatim>\<open>d < 0\<close> (\<^verbatim>\<open>Decimal.__lt__\<close> against the integer zero): an ordering comparison with a
  NaN, quiet or signalling, raises InvalidOperation.
\<close>

fun dec_lt_zero :: "decimal \<Rightarrow> signal + bool" where
  "dec_lt_zero (Finite s c e) = Inr (s \<and> c \<noteq> 0)"
| "dec_lt_zero (Infinity s) = Inr s"
| "dec_lt_zero (NaN s p) = Inl InvalidOperation"
| "dec_lt_zero (sNaN s p) = Inl InvalidOperation"

subsection \<open>Integers as text\<close>

text \<open>\<^verbatim>\<open>str(n)\<close> of a Python integer, as an f-string formats an id.\<close>

definition digit_char :: "nat \<Rightarrow> char" where
  "digit_char d = ''0123456789'' ! d"

fun str_nat :: "nat \<Rightarrow> string" where
  "str_nat n = (if n < 10 then [digit_char n] else str_nat (n div 10) @ [digit_char (n mod 10)])"

definition str_int :: "int \<Rightarrow> string" where
  "str_int i = (if i < 0 then CHR ''-'' # str_nat (nat (- i)) else str_nat (nat i))"

subsection \<open>Values, objects and the store\<close>

text \<open>
  Modelled from the spec: the class \<^verbatim>\<open>User\<close> (module \<^verbatim>\<open>core.User\<close>) is not among the sources.
  The spec calls it an opaque identity collaborator, of which the core only asks whether a
  value is an instance of it; an instance is an identity.
\<close>

datatype user = User nat

type_synonym addr = nat

text \<open>What a caller can pass to a constructor: the isinstance checks tell these apart.\<close>

datatype pyval =
    NoneV
  | BoolV bool
  | IntV int
  | StrV string
  | DecimalV decimal
  | UserV user
  | Ref addr

text \<open>
  Each class is a record of the attributes its \<^verbatim>\<open>__init__\<close> and methods assign. A field
  \<open>C__f\<close> is the private attribute \<^verbatim>\<open>self.__f\<close> written inside class \<open>C\<close>, which Python
  stores under the mangled name \<^verbatim>\<open>_C__f\<close>; a field \<open>C_f\<close> is the attribute \<^verbatim>\<open>self._f\<close>.
  So \<^verbatim>\<open>self.__status\<close> inside \<^verbatim>\<open>Operation\<close> and \<^verbatim>\<open>self.__status\<close> inside
  \<^verbatim>\<open>DepositOperation\<close> are two attributes, \<open>Operation__status\<close> and
  \<open>DepositOperation__status\<close>; the second exists only once a method has assigned it.
  An \<^verbatim>\<open>InterestAccrualOperation\<close> adds no attribute and overrides no method: its instances
  are \<open>DepositOperation\<close> records built by its own constructor.
\<close>

record BankAccount =
  BankAccount__id :: int
  BankAccount__user :: pyval
  BankAccount_balance :: decimal
  BankAccount_operations_history :: addr

record Operation =
  Operation__id :: int
  Operation__status :: string
  Operation__content :: pyval

record DepositOperation = Operation +
  DepositOperation__bank_account :: addr
  DepositOperation__value :: decimal
  DepositOperation__status :: "string option"

record WithdrawalOperation = Operation +
  WithdrawalOperation__bank_account :: addr
  WithdrawalOperation__value :: decimal
  WithdrawalOperation__status :: "string option"

datatype obj =
    ObjList "pyval list"
  | ObjBankAccount BankAccount
  | ObjDeposit DepositOperation
  | ObjWithdrawal WithdrawalOperation

text \<open>
  What \<^verbatim>\<open>print\<close> wrote: the one message of the program is the warning of
  \<^verbatim>\<open>DepositOperation.undo\<close>, a fixed text around \<^verbatim>\<open>str(self)\<close>.
\<close>

datatype line = WARNING string

text \<open>
  The state of the process: the two module-level counters, the objects by address (an
  address is an index of the list, so a new object gets an address no object has), and
  the standard output.
\<close>

record state =
  id_counter :: int
  operation_id_counter :: int
  heap :: "obj list"
  stdout :: "line list"

definition lookup :: "state \<Rightarrow> addr \<Rightarrow> obj option" where
  "lookup s a = (if a < length (heap s) then Some (heap s ! a) else None)"

definition store :: "state \<Rightarrow> addr \<Rightarrow> obj \<Rightarrow> state" where
  "store s a x = s\<lparr>heap := (heap s)[a := x]\<rparr>"

definition alloc :: "state \<Rightarrow> obj \<Rightarrow> addr \<times> state" where
  "alloc s x = (length (heap s), s\<lparr>heap := heap s @ [x]\<rparr>)"

text \<open>
  The exceptions the program raises. \<open>NotModelled\<close> is no Python exception: it marks
  the one place where the embedding stops, \<^verbatim>\<open>str\<close> of a history entry that is not an
  operation (no code of the program puts one there).
\<close>

datatype error =
    ValueError string
  | UnboundLocalError string
  | AttributeError string
  | TypeError string
  | DecimalException signal
  | NotModelled

text \<open>A constructor call that ran to its end returns the new instance.\<close>

definition alloc_result :: "state \<Rightarrow> obj \<Rightarrow> (error + addr) \<times> state" where
  "alloc_result s x = (Inr (fst (alloc s x)), snd (alloc s x))"

text \<open>
  A name a function assigns without declaring it \<^verbatim>\<open>global\<close> is a local variable of that
  function in all of its body, and a local is unbound until the function assigns it.
  Reading a local gives its value, or raises UnboundLocalError while it is unbound.
\<close>

definition load_local :: "int option \<Rightarrow> string \<Rightarrow> error + int" where
  "load_local v name = (case v of None \<Rightarrow> Inl (UnboundLocalError name) | Some i \<Rightarrow> Inr i)"

section \<open>core/BankAccount.py\<close>

fun isinstance_User :: "pyval \<Rightarrow> bool" where
  "isinstance_User (UserV u) = True"
| "isinstance_User _ = False"

text \<open>
  \<^verbatim>\<open>BankAccount(user)\<close>. After the type check the first statement is
  \<^verbatim>\<open>id_counter += 1\<close>: the function has no \<^verbatim>\<open>global id_counter\<close>, so the name is a local
  of \<^verbatim>\<open>__init__\<close>, unbound at that point, and the statement reads it first. The rest of
  the body is what would follow: the id from the local, the owner, the balance
  \<^verbatim>\<open>Decimal('0')\<close> and a new empty history list.
\<close>

definition BankAccount_init :: "pyval \<Rightarrow> state \<Rightarrow> (error + addr) \<times> state" where
  "BankAccount_init user s =
     (if \<not> isinstance_User user
      then (Inl (ValueError ''user must be instance of user class''), s)
      else
        (case load_local None ''id_counter'' of
           Inl e \<Rightarrow> (Inl e, s)
         | Inr c \<Rightarrow>
             (let local_id_counter = c + 1;
                  (history, s1) = alloc s (ObjList [])
              in alloc_result s1 (ObjBankAccount
                   \<lparr>BankAccount__id = local_id_counter,
                    BankAccount__user = user,
                    BankAccount_balance = Finite False 0 0,
                    BankAccount_operations_history = history\<rparr>))))"

text \<open>The properties \<^verbatim>\<open>id\<close>, \<^verbatim>\<open>user\<close> and \<^verbatim>\<open>balance\<close> return the attribute.\<close>

definition balance :: "BankAccount \<Rightarrow> decimal" where
  "balance self = BankAccount_balance self"

text \<open>
  The attributes of an account instance by name: the four that \<^verbatim>\<open>__init__\<close> assigns.
  (The class adds the properties and \<^verbatim>\<open>__str__\<close>; the program reads those by their own
  names, modelled by their own functions.) Any other name raises AttributeError.
\<close>

definition BankAccount_getattr :: "BankAccount \<Rightarrow> string \<Rightarrow> error + pyval" where
  "BankAccount_getattr acc name =
     (if name = ''_BankAccount__id'' then Inr (IntV (BankAccount__id acc))
      else if name = ''_BankAccount__user'' then Inr (BankAccount__user acc)
      else if name = ''_balance'' then Inr (DecimalV (BankAccount_balance acc))
      else if name = ''_operations_history'' then Inr (Ref (BankAccount_operations_history acc))
      else Inl (AttributeError name))"

definition getattr :: "state \<Rightarrow> addr \<Rightarrow> string \<Rightarrow> error + pyval" where
  "getattr s a name =
     (case lookup s a of
        Some (ObjBankAccount acc) \<Rightarrow> BankAccount_getattr acc name
      | _ \<Rightarrow> Inl (AttributeError name))"

text \<open>Reading and assigning \<^verbatim>\<open>account._balance\<close> through a reference.\<close>

definition getattr_balance :: "state \<Rightarrow> addr \<Rightarrow> error + decimal" where
  "getattr_balance s a =
     (case lookup s a of
        Some (ObjBankAccount acc) \<Rightarrow> Inr (BankAccount_balance acc)
      | _ \<Rightarrow> Inl (AttributeError ''_balance''))"

definition setattr_balance :: "state \<Rightarrow> addr \<Rightarrow> decimal \<Rightarrow> state" where
  "setattr_balance s a b =
     (case lookup s a of
        Some (ObjBankAccount acc) \<Rightarrow> store s a (ObjBankAccount (acc\<lparr>BankAccount_balance := b\<rparr>))
      | _ \<Rightarrow> s)"

text \<open>\<^verbatim>\<open>l.append(x)\<close>: only a list has the method.\<close>

definition list_append :: "state \<Rightarrow> pyval \<Rightarrow> pyval \<Rightarrow> (error + unit) \<times> state" where
  "list_append s l x =
     (case l of
        Ref a \<Rightarrow>
          (case lookup s a of
             Some (ObjList xs) \<Rightarrow> (Inr (), store s a (ObjList (xs @ [x])))
           | _ \<Rightarrow> (Inl (AttributeError ''append''), s))
      | _ \<Rightarrow> (Inl (AttributeError ''append''), s))"

text \<open>
  \<^verbatim>\<open>__str__\<close> of the operation classes (an \<^verbatim>\<open>InterestAccrualOperation\<close> inherits
  \<^verbatim>\<open>DepositOperation.__str__\<close>), and \<^verbatim>\<open>str(x)\<close> of a history entry.
\<close>

definition DepositOperation_str :: "DepositOperation \<Rightarrow> string" where
  "DepositOperation_str self = str_int (Operation__id self) @ '': DepositOperation''"

definition WithdrawalOperation_str :: "WithdrawalOperation \<Rightarrow> string" where
  "WithdrawalOperation_str self = str_int (Operation__id self) @ '': WithdrawalOperation''"

definition py_str :: "state \<Rightarrow> pyval \<Rightarrow> error + string" where
  "py_str s x =
     (case x of
        Ref a \<Rightarrow>
          (case lookup s a of
             Some (ObjDeposit d) \<Rightarrow> Inr (DepositOperation_str d)
           | Some (ObjWithdrawal w) \<Rightarrow> Inr (WithdrawalOperation_str w)
           | _ \<Rightarrow> Inl NotModelled)
      | _ \<Rightarrow> Inl NotModelled)"

text \<open>
  The property \<^verbatim>\<open>operations_history\<close>: a new list \<^verbatim>\<open>result\<close>, to which the loop appends
  \<^verbatim>\<open>str(operation)\<close> for every entry of \<^verbatim>\<open>self._operations_history\<close>; the new list is
  returned.
\<close>

fun history_loop :: "pyval list \<Rightarrow> addr \<Rightarrow> state \<Rightarrow> (error + unit) \<times> state" where
  "history_loop [] result s = (Inr (), s)"
| "history_loop (operation # rest) result s =
     (case py_str s operation of
        Inl e \<Rightarrow> (Inl e, s)
      | Inr text \<Rightarrow>
          (case list_append s (Ref result) (StrV text) of
             (Inl e, s1) \<Rightarrow> (Inl e, s1)
           | (Inr u, s1) \<Rightarrow> history_loop rest result s1))"

definition operations_history :: "addr \<Rightarrow> state \<Rightarrow> (error + addr) \<times> state" where
  "operations_history self s =
     (case lookup s self of
        Some (ObjBankAccount acc) \<Rightarrow>
          (let (result, s1) = alloc s (ObjList [])
           in (case lookup s1 (BankAccount_operations_history acc) of
                 Some (ObjList entries) \<Rightarrow>
                   (case history_loop entries result s1 of
                      (Inl e, s2) \<Rightarrow> (Inl e, s2)
                    | (Inr u, s2) \<Rightarrow> (Inr result, s2))
               | _ \<Rightarrow> (Inl (TypeError ''object is not iterable''), s1)))
      | _ \<Rightarrow> (Inl (AttributeError ''operations_history''), s))"

section \<open>core/Operations.py\<close>

subsection \<open>The constructors\<close>

text \<open>
  The isinstance checks of the constructors, giving the instance when the check passes.
\<close>

definition as_BankAccount :: "state \<Rightarrow> pyval \<Rightarrow> (addr \<times> BankAccount) option" where
  "as_BankAccount s x =
     (case x of
        Ref a \<Rightarrow> (case lookup s a of Some (ObjBankAccount acc) \<Rightarrow> Some (a, acc) | _ \<Rightarrow> None)
      | _ \<Rightarrow> None)"

definition isinstance_BankAccount :: "state \<Rightarrow> pyval \<Rightarrow> bool" where
  "isinstance_BankAccount s x = (as_BankAccount s x \<noteq> None)"

fun as_Decimal :: "pyval \<Rightarrow> decimal option" where
  "as_Decimal (DecimalV d) = Some d"
| "as_Decimal _ = None"

definition isinstance_Decimal :: "pyval \<Rightarrow> bool" where
  "isinstance_Decimal x = (as_Decimal x \<noteq> None)"

text \<open>
  \<^verbatim>\<open>Operation.__init__(self, content)\<close>: its first statement is
  \<^verbatim>\<open>operation_id_counter += 1\<close>, again on a name the function never declares global. What
  would follow sets the id from the local, the status \<^verbatim>\<open>'I'\<close> and the comment.
\<close>

definition Operation_init :: "pyval \<Rightarrow> state \<Rightarrow> (error + Operation) \<times> state" where
  "Operation_init content s =
     (case load_local None ''operation_id_counter'' of
        Inl e \<Rightarrow> (Inl e, s)
      | Inr c \<Rightarrow>
          (let local_operation_id_counter = c + 1
           in (Inr \<lparr>Operation__id = local_operation_id_counter,
                    Operation__status = ''I'',
                    Operation__content = content\<rparr>, s)))"

text \<open>\<^verbatim>\<open>DepositOperation(bank_account, value, content)\<close>.\<close>

definition DepositOperation_init ::
  "pyval \<Rightarrow> pyval \<Rightarrow> pyval \<Rightarrow> state \<Rightarrow> (error + addr) \<times> state" where
  "DepositOperation_init bank_account val content s =
     (case as_BankAccount s bank_account of
        None \<Rightarrow> (Inl (ValueError ''bank_account must be instance of BankAccount class''), s)
      | Some (a, acc) \<Rightarrow>
          (case as_Decimal val of
             None \<Rightarrow> (Inl (ValueError ''value must be instance of Decimal class''), s)
           | Some d \<Rightarrow>
               (case Operation_init content s of
                  (Inl e, s1) \<Rightarrow> (Inl e, s1)
                | (Inr base, s1) \<Rightarrow>
                    alloc_result s1 (ObjDeposit
                      \<lparr>Operation__id = Operation__id base,
                       Operation__status = Operation__status base,
                       Operation__content = Operation__content base,
                       DepositOperation__bank_account = a,
                       DepositOperation__value = d,
                       DepositOperation__status = None\<rparr>))))"

text \<open>
  \<^verbatim>\<open>WithdrawalOperation(bank_account, value, content)\<close>: it calls \<^verbatim>\<open>super().__init__()\<close>
  with no argument, so the comment is the default \<^verbatim>\<open>''\<close>.
\<close>

definition WithdrawalOperation_init ::
  "pyval \<Rightarrow> pyval \<Rightarrow> pyval \<Rightarrow> state \<Rightarrow> (error + addr) \<times> state" where
  "WithdrawalOperation_init bank_account val content s =
     (case as_BankAccount s bank_account of
        None \<Rightarrow> (Inl (ValueError ''bank_account must be instance of BankAccount class''), s)
      | Some (a, acc) \<Rightarrow>
          (case as_Decimal val of
             None \<Rightarrow> (Inl (ValueError ''value must be instance of Decimal class''), s)
           | Some d \<Rightarrow>
               (case Operation_init (StrV []) s of
                  (Inl e, s1) \<Rightarrow> (Inl e, s1)
                | (Inr base, s1) \<Rightarrow>
                    alloc_result s1 (ObjWithdrawal
                      \<lparr>Operation__id = Operation__id base,
                       Operation__status = Operation__status base,
                       Operation__content = Operation__content base,
                       WithdrawalOperation__bank_account = a,
                       WithdrawalOperation__value = d,
                       WithdrawalOperation__status = None\<rparr>))))"

text \<open>
  \<^verbatim>\<open>InterestAccrualOperation(bank_account, rate)\<close>: after its own checks it evaluates the
  argument \<^verbatim>\<open>rate * bank_account.balance\<close>, which can raise, and then calls
  \<^verbatim>\<open>DepositOperation.__init__\<close> with the product as value and the default comment.
\<close>

definition InterestAccrualOperation_init ::
  "pyval \<Rightarrow> pyval \<Rightarrow> state \<Rightarrow> (error + addr) \<times> state" where
  "InterestAccrualOperation_init bank_account rate s =
     (case as_BankAccount s bank_account of
        None \<Rightarrow> (Inl (ValueError ''bank_account must be instance of BankAccount class''), s)
      | Some (a, acc) \<Rightarrow>
          (case as_Decimal rate of
             None \<Rightarrow> (Inl (ValueError ''rate must be instance of Decimal class''), s)
           | Some r \<Rightarrow>
               (case dec_mul r (balance acc) of
                  Inl sig \<Rightarrow> (Inl (DecimalException sig), s)
                | Inr product \<Rightarrow> DepositOperation_init bank_account (DecimalV product) (StrV []) s)))"

subsection \<open>The methods\<close>

text \<open>
  The property \<^verbatim>\<open>status\<close> is defined in \<^verbatim>\<open>Operation\<close> and returns \<^verbatim>\<open>self.__status\<close> as
  that class names it: the attribute \<open>Operation__status\<close>. The properties
  \<^verbatim>\<open>bank_account\<close> and \<^verbatim>\<open>value\<close> of the two subclasses return the subclass's own private
  attributes.
\<close>

definition status :: "'a Operation_scheme \<Rightarrow> string" where
  "status self = Operation__status self"

text \<open>
  \<^verbatim>\<open>account._balance += v\<close> and \<^verbatim>\<open>account._balance -= v\<close>: read the attribute, compute,
  assign the attribute.
\<close>

definition iadd_balance :: "state \<Rightarrow> addr \<Rightarrow> decimal \<Rightarrow> (error + unit) \<times> state" where
  "iadd_balance s a v =
     (case getattr_balance s a of
        Inl e \<Rightarrow> (Inl e, s)
      | Inr b \<Rightarrow>
          (case dec_add b v of
             Inl sig \<Rightarrow> (Inl (DecimalException sig), s)
           | Inr b' \<Rightarrow> (Inr (), setattr_balance s a b')))"

definition isub_balance :: "state \<Rightarrow> addr \<Rightarrow> decimal \<Rightarrow> (error + unit) \<times> state" where
  "isub_balance s a v =
     (case getattr_balance s a of
        Inl e \<Rightarrow> (Inl e, s)
      | Inr b \<Rightarrow>
          (case dec_sub b v of
             Inl sig \<Rightarrow> (Inl (DecimalException sig), s)
           | Inr b' \<Rightarrow> (Inr (), setattr_balance s a b')))"

text \<open>\<^verbatim>\<open>account._balance < 0\<close> and \<^verbatim>\<open>account._balance - v < 0\<close>.\<close>

definition balance_negative :: "state \<Rightarrow> addr \<Rightarrow> error + bool" where
  "balance_negative s a =
     (case getattr_balance s a of
        Inl e \<Rightarrow> Inl e
      | Inr b \<Rightarrow>
          (case dec_lt_zero b of
             Inl sig \<Rightarrow> Inl (DecimalException sig)
           | Inr neg \<Rightarrow> Inr neg))"

definition balance_minus_negative :: "state \<Rightarrow> addr \<Rightarrow> decimal \<Rightarrow> error + bool" where
  "balance_minus_negative s a v =
     (case getattr_balance s a of
        Inl e \<Rightarrow> Inl e
      | Inr b \<Rightarrow>
          (case dec_sub b v of
             Inl sig \<Rightarrow> Inl (DecimalException sig)
           | Inr d \<Rightarrow>
               (case dec_lt_zero d of
                  Inl sig \<Rightarrow> Inl (DecimalException sig)
                | Inr neg \<Rightarrow> Inr neg)))"

definition print_line :: "state \<Rightarrow> line \<Rightarrow> state" where
  "print_line s l = s\<lparr>stdout := stdout s @ [l]\<rparr>"

text \<open>
  \<^verbatim>\<open>DepositOperation.execute\<close>. \<open>self\<close> is the address of the instance and \<open>this\<close> its
  attributes at the call. The history is read as \<^verbatim>\<open>_operation_history\<close>, the name the
  method writes; the assignment \<^verbatim>\<open>self.__status = 'D'\<close> stands in \<^verbatim>\<open>DepositOperation\<close>,
  so it sets \<open>DepositOperation__status\<close>.
\<close>

definition DepositOperation_execute ::
  "addr \<Rightarrow> DepositOperation \<Rightarrow> state \<Rightarrow> (error + bool) \<times> state" where
  "DepositOperation_execute self this s =
     (if status this \<noteq> ''I'' then (Inr False, s)
      else
        (case iadd_balance s (DepositOperation__bank_account this) (DepositOperation__value this) of
           (Inl e, s1) \<Rightarrow> (Inl e, s1)
         | (Inr u, s1) \<Rightarrow>
             (case getattr s1 (DepositOperation__bank_account this) ''_operation_history'' of
                Inl e \<Rightarrow> (Inl e, s1)
              | Inr history \<Rightarrow>
                  (case list_append s1 history (Ref self) of
                     (Inl e, s2) \<Rightarrow> (Inl e, s2)
                   | (Inr u, s2) \<Rightarrow>
                       (Inr True,
                        store s2 self (ObjDeposit (this\<lparr>DepositOperation__status := Some ''D''\<rparr>)))))))"

text \<open>
  \<^verbatim>\<open>DepositOperation.undo\<close>: the warning is printed after the balance and the attribute
  were assigned.
\<close>

definition DepositOperation_undo ::
  "addr \<Rightarrow> DepositOperation \<Rightarrow> state \<Rightarrow> (error + bool) \<times> state" where
  "DepositOperation_undo self this s =
     (if status this \<noteq> ''D'' then (Inr False, s)
      else
        (case isub_balance s (DepositOperation__bank_account this) (DepositOperation__value this) of
           (Inl e, s1) \<Rightarrow> (Inl e, s1)
         | (Inr u, s1) \<Rightarrow>
             (let s2 = store s1 self (ObjDeposit (this\<lparr>DepositOperation__status := Some ''U''\<rparr>))
              in (case balance_negative s2 (DepositOperation__bank_account this) of
                    Inl e \<Rightarrow> (Inl e, s2)
                  | Inr neg \<Rightarrow>
                      (Inr True,
                       if neg then print_line s2 (WARNING (DepositOperation_str this)) else s2)))))"

text \<open>\<^verbatim>\<open>WithdrawalOperation.execute\<close>.\<close>

definition WithdrawalOperation_execute ::
  "addr \<Rightarrow> WithdrawalOperation \<Rightarrow> state \<Rightarrow> (error + bool) \<times> state" where
  "WithdrawalOperation_execute self this s =
     (if status this \<noteq> ''I'' then (Inr False, s)
      else
        (case balance_minus_negative s (WithdrawalOperation__bank_account this)
                (WithdrawalOperation__value this) of
           Inl e \<Rightarrow> (Inl e, s)
         | Inr True \<Rightarrow>
             (Inr False,
              store s self (ObjWithdrawal (this\<lparr>WithdrawalOperation__status := Some ''E''\<rparr>)))
         | Inr False \<Rightarrow>
             (case isub_balance s (WithdrawalOperation__bank_account this)
                     (WithdrawalOperation__value this) of
                (Inl e, s1) \<Rightarrow> (Inl e, s1)
              | (Inr u, s1) \<Rightarrow>
                  (case getattr s1 (WithdrawalOperation__bank_account this) ''_operation_history'' of
                     Inl e \<Rightarrow> (Inl e, s1)
                   | Inr history \<Rightarrow>
                       (case list_append s1 history (Ref self) of
                          (Inl e, s2) \<Rightarrow> (Inl e, s2)
                        | (Inr u, s2) \<Rightarrow>
                            (Inr True,
                             store s2 self
                               (ObjWithdrawal (this\<lparr>WithdrawalOperation__status := Some ''D''\<rparr>))))))))"

text \<open>\<^verbatim>\<open>WithdrawalOperation.undo\<close>.\<close>

definition WithdrawalOperation_undo ::
  "addr \<Rightarrow> WithdrawalOperation \<Rightarrow> state \<Rightarrow> (error + bool) \<times> state" where
  "WithdrawalOperation_undo self this s =
     (if status this \<noteq> ''D'' then (Inr False, s)
      else
        (case iadd_balance s (WithdrawalOperation__bank_account this)
                (WithdrawalOperation__value this) of
           (Inl e, s1) \<Rightarrow> (Inl e, s1)
         | (Inr u, s1) \<Rightarrow>
             (Inr True,
              store s1 self (ObjWithdrawal (this\<lparr>WithdrawalOperation__status := Some ''U''\<rparr>)))))"

subsection \<open>Calls on a reference\<close>

text \<open>
  \<^verbatim>\<open>op.execute()\<close>, \<^verbatim>\<open>op.undo()\<close> and \<^verbatim>\<open>op.status\<close> on a reference: the class of the
  object decides the method; an object of another class has no such attribute.
\<close>

definition execute :: "addr \<Rightarrow> state \<Rightarrow> (error + bool) \<times> state" where
  "execute self s =
     (case lookup s self of
        Some (ObjDeposit this) \<Rightarrow> DepositOperation_execute self this s
      | Some (ObjWithdrawal this) \<Rightarrow> WithdrawalOperation_execute self this s
      | _ \<Rightarrow> (Inl (AttributeError ''execute''), s))"

definition undo :: "addr \<Rightarrow> state \<Rightarrow> (error + bool) \<times> state" where
  "undo self s =
     (case lookup s self of
        Some (ObjDeposit this) \<Rightarrow> DepositOperation_undo self this s
      | Some (ObjWithdrawal this) \<Rightarrow> WithdrawalOperation_undo self this s
      | _ \<Rightarrow> (Inl (AttributeError ''undo''), s))"

definition status_of :: "state \<Rightarrow> addr \<Rightarrow> error + string" where
  "status_of s self =
     (case lookup s self of
        Some (ObjDeposit this) \<Rightarrow> Inr (status this)
      | Some (ObjWithdrawal this) \<Rightarrow> Inr (status this)
      | _ \<Rightarrow> Inl (AttributeError ''status''))"

text \<open>A caller's sequence of calls, each exception caught: the state after all of them.\<close>

datatype call = Execute addr | Undo addr

fun call_state :: "call \<Rightarrow> state \<Rightarrow> state" where
  "call_state (Execute a) s = snd (execute a s)"
| "call_state (Undo a) s = snd (undo a s)"

fun run :: "call list \<Rightarrow> state \<Rightarrow> state" where
  "run [] s = s"
| "run (c # cs) s = run cs (call_state c s)"

subsection \<open>What a caller observes of an account\<close>

definition balance_of :: "state \<Rightarrow> addr \<Rightarrow> decimal option" where
  "balance_of s a =
     (case lookup s a of Some (ObjBankAccount acc) \<Rightarrow> Some (balance acc) | _ \<Rightarrow> None)"

text \<open>The entries of the list \<^verbatim>\<open>account._operations_history\<close>.\<close>

definition history_of :: "state \<Rightarrow> addr \<Rightarrow> pyval list option" where
  "history_of s a =
     (case lookup s a of
        Some (ObjBankAccount acc) \<Rightarrow>
          (case lookup s (BankAccount_operations_history acc) of
             Some (ObjList entries) \<Rightarrow> Some entries
           | _ \<Rightarrow> None)
      | _ \<Rightarrow> None)"

section \<open>Views of the store and example states\<close>

text \<open>
  What of an object the \<^verbatim>\<open>status\<close> property depends on, and what the history of an
  account depends on: the entries of a list, and the list an account refers to.
\<close>

fun op_status :: "obj \<Rightarrow> string option" where
  "op_status (ObjDeposit this) = Some (status this)"
| "op_status (ObjWithdrawal this) = Some (status this)"
| "op_status _ = None"

fun history_view :: "obj \<Rightarrow> pyval list + addr option" where
  "history_view (ObjList xs) = Inl xs"
| "history_view (ObjBankAccount acc) = Inr (Some (BankAccount_operations_history acc))"
| "history_view _ = Inr None"

text \<open>
  The state once both modules are loaded: the counters at 0, no object, no output.
\<close>

definition module_state :: state where
  "module_state = \<lparr>id_counter = 0, operation_id_counter = 0, heap = [], stdout = []\<rparr>"

text \<open>
  No constructor call returns an instance (see the theorems on the constructors), so the
  examples give the objects directly, with the attributes the constructors would assign:
  at address 0 the empty history list, at address 1 an account with id 1 and a given
  balance, and from address 2 on the given operations on that account.
\<close>

definition account_state :: "decimal \<Rightarrow> obj list \<Rightarrow> state" where
  "account_state b objs =
     \<lparr>id_counter = 0, operation_id_counter = 0,
      heap = [ObjList [],
              ObjBankAccount \<lparr>BankAccount__id = 1, BankAccount__user = UserV (User 0),
                BankAccount_balance = b, BankAccount_operations_history = 0\<rparr>] @ objs,
      stdout = []\<rparr>"

definition deposit :: "int \<Rightarrow> decimal \<Rightarrow> obj" where
  "deposit i v =
     ObjDeposit \<lparr>Operation__id = i, Operation__status = ''I'', Operation__content = StrV [],
       DepositOperation__bank_account = 1, DepositOperation__value = v,
       DepositOperation__status = None\<rparr>"

definition withdrawal :: "int \<Rightarrow> decimal \<Rightarrow> obj" where
  "withdrawal i v =
     ObjWithdrawal \<lparr>Operation__id = i, Operation__status = ''I'', Operation__content = StrV [],
       WithdrawalOperation__bank_account = 1, WithdrawalOperation__value = v,
       WithdrawalOperation__status = None\<rparr>"

text \<open>\<^verbatim>\<open>Decimal(n)\<close> of an integer.\<close>

definition Decimal :: "int \<Rightarrow> decimal" where
  "Decimal n = Finite (n < 0) (nat \<bar>n\<bar>) 0"

text \<open>
  Two changes of an example state, for the cases the program itself never reaches: the
  history list of the account with given entries, and an operation whose \<^verbatim>\<open>status\<close> is
  \<^verbatim>\<open>'D'\<close>.
\<close>

definition with_history :: "pyval list \<Rightarrow> state \<Rightarrow> state" where
  "with_history entries s = store s 0 (ObjList entries)"

fun executed :: "obj \<Rightarrow> obj" where
  "executed (ObjDeposit this) = ObjDeposit (this\<lparr>Operation__status := ''D''\<rparr>)"
| "executed (ObjWithdrawal this) = ObjWithdrawal (this\<lparr>Operation__status := ''D''\<rparr>)"
| "executed x = x"

section \<open>How the methods change the store\<close>

declare ndigits.simps [simp del]
declare str_nat.simps [simp del]

text \<open>
  A view \<open>f\<close> of the objects is kept by a method when every assignment the method makes
  replaces an object by one with the same view.
\<close>

lemma lookup_Some: "lookup s a = Some x \<Longrightarrow> a < length (heap s) \<and> heap s ! a = x"
  by (auto simp: lookup_def split: if_splits)

lemma map_store:
  "(a < length (heap s) \<Longrightarrow> f x = f (heap s ! a)) \<Longrightarrow> map f (heap (store s a x)) = map f (heap s)"
  by (cases "a < length (heap s)") (simp_all add: store_def map_update list_update_same_conv list_update_beyond)

lemma nth_view: "map f xs = map f ys \<Longrightarrow> a < length ys \<Longrightarrow> f (xs ! a) = f (ys ! a)"
  by (metis length_map nth_map)

lemma length_view: "map f xs = map f ys \<Longrightarrow> length xs = length ys"
  by (metis length_map)

lemma view_store:
  assumes "map f (heap s2) = map f (heap s)" "lookup s self = Some x" "f y = f x"
  shows "map f (heap (store s2 self y)) = map f (heap s)"
proof -
  from assms(2) have a: "self < length (heap s)" "heap s ! self = x"
    by (auto dest: lookup_Some)
  have "f (heap s2 ! self) = f (heap s ! self)"
    using nth_view [OF assms(1) a(1)] .
  then have "map f (heap (store s2 self y)) = map f (heap s2)"
    using a assms(3) by (intro map_store) simp
  then show ?thesis using assms(1) by simp
qed

lemma view_setattr_balance:
  assumes "\<And>acc b. f (ObjBankAccount (acc\<lparr>BankAccount_balance := b\<rparr>)) = f (ObjBankAccount acc)"
  shows "map f (heap (setattr_balance s a b)) = map f (heap s)"
  by (auto simp: setattr_balance_def assms split: option.splits obj.splits dest!: lookup_Some intro!: map_store)

lemma view_iadd_balance:
  assumes "\<And>acc b. f (ObjBankAccount (acc\<lparr>BankAccount_balance := b\<rparr>)) = f (ObjBankAccount acc)"
  shows "map f (heap (snd (iadd_balance s a v))) = map f (heap s)"
  by (simp add: iadd_balance_def view_setattr_balance [of f] assms split: sum.splits)

lemma view_isub_balance:
  assumes "\<And>acc b. f (ObjBankAccount (acc\<lparr>BankAccount_balance := b\<rparr>)) = f (ObjBankAccount acc)"
  shows "map f (heap (snd (isub_balance s a v))) = map f (heap s)"
  by (simp add: isub_balance_def view_setattr_balance [of f] assms split: sum.splits)

lemma view_list_append:
  assumes "\<And>xs ys. f (ObjList xs) = f (ObjList ys)"
  shows "map f (heap (snd (list_append s l x))) = map f (heap s)"
proof (cases "list_append s l x")
  case (Pair r s1)
  show ?thesis
  proof (cases r)
    case (Inl e)
    with Pair have "s1 = s"
      by (auto simp: list_append_def split: pyval.splits option.splits obj.splits)
    with Pair show ?thesis by simp
  next
    case (Inr u)
    with Pair obtain a xs where a: "lookup s a = Some (ObjList xs)" "s1 = store s a (ObjList (xs @ [x]))"
      by (auto simp: list_append_def split: pyval.splits option.splits obj.splits)
    have "map f (heap (store s a (ObjList (xs @ [x])))) = map f (heap s)"
      using refl a(1) assms by (rule view_store)
    with Pair a show ?thesis by simp
  qed
qed

lemma heap_print_line: "heap (print_line s l) = heap s"
  by (simp add: print_line_def)

lemma view_DepositOperation_undo:
  assumes acc: "\<And>acc b. f (ObjBankAccount (acc\<lparr>BankAccount_balance := b\<rparr>)) = f (ObjBankAccount acc)"
    and dep: "\<And>this x. f (ObjDeposit (this\<lparr>DepositOperation__status := x\<rparr>)) = f (ObjDeposit this)"
    and self: "lookup s self = Some (ObjDeposit this)"
  shows "map f (heap (snd (DepositOperation_undo self this s))) = map f (heap s)"
proof (cases "isub_balance s (DepositOperation__bank_account this) (DepositOperation__value this)")
  case (Pair r s1)
  have s1: "map f (heap s1) = map f (heap s)"
    using view_isub_balance [of f s "DepositOperation__bank_account this" "DepositOperation__value this"]
      acc Pair by simp
  have s2: "map f (heap (store s1 self (ObjDeposit (this\<lparr>DepositOperation__status := Some ''U''\<rparr>)))) = map f (heap s)"
    using s1 self dep by (rule view_store)
  show ?thesis
    using Pair s1 s2
    by (simp add: DepositOperation_undo_def Let_def heap_print_line split: sum.splits)
qed

lemma view_WithdrawalOperation_undo:
  assumes acc: "\<And>acc b. f (ObjBankAccount (acc\<lparr>BankAccount_balance := b\<rparr>)) = f (ObjBankAccount acc)"
    and wd: "\<And>this x. f (ObjWithdrawal (this\<lparr>WithdrawalOperation__status := x\<rparr>)) = f (ObjWithdrawal this)"
    and self: "lookup s self = Some (ObjWithdrawal this)"
  shows "map f (heap (snd (WithdrawalOperation_undo self this s))) = map f (heap s)"
proof (cases "iadd_balance s (WithdrawalOperation__bank_account this) (WithdrawalOperation__value this)")
  case (Pair r s1)
  have s1: "map f (heap s1) = map f (heap s)"
    using view_iadd_balance [of f s "WithdrawalOperation__bank_account this" "WithdrawalOperation__value this"]
      acc Pair by simp
  have s2: "map f (heap (store s1 self (ObjWithdrawal (this\<lparr>WithdrawalOperation__status := Some ''U''\<rparr>)))) = map f (heap s)"
    using s1 self wd by (rule view_store)
  show ?thesis
    using Pair s1 s2
    by (simp add: WithdrawalOperation_undo_def split: sum.splits)
qed

lemma view_undo:
  assumes acc: "\<And>acc b. f (ObjBankAccount (acc\<lparr>BankAccount_balance := b\<rparr>)) = f (ObjBankAccount acc)"
    and dep: "\<And>this x. f (ObjDeposit (this\<lparr>DepositOperation__status := x\<rparr>)) = f (ObjDeposit this)"
    and wd: "\<And>this x. f (ObjWithdrawal (this\<lparr>WithdrawalOperation__status := x\<rparr>)) = f (ObjWithdrawal this)"
  shows "map f (heap (snd (undo self s))) = map f (heap s)"
  by (simp add: undo_def view_DepositOperation_undo [of f] view_WithdrawalOperation_undo [of f] assms
      split: option.splits obj.splits)

lemma view_DepositOperation_execute:
  assumes acc: "\<And>acc b. f (ObjBankAccount (acc\<lparr>BankAccount_balance := b\<rparr>)) = f (ObjBankAccount acc)"
    and dep: "\<And>this x. f (ObjDeposit (this\<lparr>DepositOperation__status := x\<rparr>)) = f (ObjDeposit this)"
    and lst: "\<And>xs ys. f (ObjList xs) = f (ObjList ys)"
    and self: "lookup s self = Some (ObjDeposit this)"
  shows "map f (heap (snd (DepositOperation_execute self this s))) = map f (heap s)"
proof (cases "iadd_balance s (DepositOperation__bank_account this) (DepositOperation__value this)")
  case (Pair r s1)
  have s1: "map f (heap s1) = map f (heap s)"
    using view_iadd_balance [of f s "DepositOperation__bank_account this" "DepositOperation__value this"]
      acc Pair by simp
  have app: "map f (heap (snd (list_append s1 h (Ref self)))) = map f (heap s)" for h
    using view_list_append [of f s1 h "Ref self"] lst s1 by simp
  have finished: "map f (heap (store (snd (list_append s1 h (Ref self))) self
        (ObjDeposit (this\<lparr>DepositOperation__status := Some ''D''\<rparr>)))) = map f (heap s)" for h
    using app self dep by (rule view_store)
  show ?thesis
    using Pair s1
    apply (simp add: DepositOperation_execute_def split: sum.splits prod.splits)
    apply (intro conjI allI impI)
     apply (metis app snd_conv)
    apply (metis finished snd_conv)
    done
qed

lemma view_WithdrawalOperation_execute:
  assumes acc: "\<And>acc b. f (ObjBankAccount (acc\<lparr>BankAccount_balance := b\<rparr>)) = f (ObjBankAccount acc)"
    and wd: "\<And>this x. f (ObjWithdrawal (this\<lparr>WithdrawalOperation__status := x\<rparr>)) = f (ObjWithdrawal this)"
    and lst: "\<And>xs ys. f (ObjList xs) = f (ObjList ys)"
    and self: "lookup s self = Some (ObjWithdrawal this)"
  shows "map f (heap (snd (WithdrawalOperation_execute self this s))) = map f (heap s)"
proof (cases "isub_balance s (WithdrawalOperation__bank_account this) (WithdrawalOperation__value this)")
  case (Pair r s1)
  have s1: "map f (heap s1) = map f (heap s)"
    using view_isub_balance [of f s "WithdrawalOperation__bank_account this" "WithdrawalOperation__value this"]
      acc Pair by simp
  have failed: "map f (heap (store s self (ObjWithdrawal (this\<lparr>WithdrawalOperation__status := Some ''E''\<rparr>)))) = map f (heap s)"
    using refl self wd by (rule view_store)
  have app: "map f (heap (snd (list_append s1 h (Ref self)))) = map f (heap s)" for h
    using view_list_append [of f s1 h "Ref self"] lst s1 by simp
  have finished: "map f (heap (store (snd (list_append s1 h (Ref self))) self
        (ObjWithdrawal (this\<lparr>WithdrawalOperation__status := Some ''D''\<rparr>)))) = map f (heap s)" for h
    using app self wd by (rule view_store)
  show ?thesis
    using Pair s1 failed
    apply (simp add: WithdrawalOperation_execute_def split: sum.splits bool.splits prod.splits)
    apply (intro conjI allI impI)
     apply (metis app snd_conv)
    apply (metis finished snd_conv)
    done
qed

lemma view_execute:
  assumes acc: "\<And>acc b. f (ObjBankAccount (acc\<lparr>BankAccount_balance := b\<rparr>)) = f (ObjBankAccount acc)"
    and dep: "\<And>this x. f (ObjDeposit (this\<lparr>DepositOperation__status := x\<rparr>)) = f (ObjDeposit this)"
    and wd: "\<And>this x. f (ObjWithdrawal (this\<lparr>WithdrawalOperation__status := x\<rparr>)) = f (ObjWithdrawal this)"
    and lst: "\<And>xs ys. f (ObjList xs) = f (ObjList ys)"
  shows "map f (heap (snd (execute self s))) = map f (heap s)"
  by (simp add: execute_def view_DepositOperation_execute [of f] view_WithdrawalOperation_execute [of f] assms
      split: option.splits obj.splits)

lemma status_execute: "map op_status (heap (snd (execute self s))) = map op_status (heap s)"
  by (rule view_execute) (simp_all add: status_def)

lemma status_undo: "map op_status (heap (snd (undo self s))) = map op_status (heap s)"
  by (rule view_undo) (simp_all add: status_def)

lemma status_run: "map op_status (heap (run cs s)) = map op_status (heap s)"
proof (induction cs arbitrary: s)
  case Nil
  show ?case by simp
next
  case (Cons c cs)
  have "map op_status (heap (call_state c s)) = map op_status (heap s)"
    by (cases c) (simp_all add: status_execute status_undo)
  with Cons show ?case by simp
qed

lemma status_of_view:
  "status_of s a =
     (if a < length (heap s) then
        (case map op_status (heap s) ! a of Some st \<Rightarrow> Inr st | None \<Rightarrow> Inl (AttributeError ''status''))
      else Inl (AttributeError ''status''))"
  by (cases "heap s ! a") (simp_all add: status_of_def lookup_def)

section \<open>The status a caller observes\<close>

text \<open>
  C9. The \<^verbatim>\<open>status\<close> property reads \<open>Operation__status\<close>; \<^verbatim>\<open>execute\<close> and \<^verbatim>\<open>undo\<close> of
  the subclasses assign \<open>DepositOperation__status\<close> and \<open>WithdrawalOperation__status\<close>.
  So an operation whose status is \<^verbatim>\<open>'I'\<close> still has status \<^verbatim>\<open>'I'\<close> after any sequence of
  \<^verbatim>\<open>execute()\<close> and \<^verbatim>\<open>undo()\<close> calls, on this or any other operation, whatever they return
  or raise.
\<close>

theorem status_stays_Initialized:
  "status_of s a = Inr ''I'' \<Longrightarrow> status_of (run cs s) a = Inr ''I''"
  using status_run [of cs s] length_view [OF status_run [of cs s]]
  by (simp add: status_of_view split: if_splits)


theorem status_stays_Initialized_witness:
  "status_of (account_state (Decimal 0) [deposit 1 (Decimal 100), withdrawal 2 (Decimal 40)]) 3 = Inr ''I'' \<and>
   status_of (run [Execute 2, Execute 3, Undo 3, Undo 2, Execute 3]
      (account_state (Decimal 0) [deposit 1 (Decimal 100), withdrawal 2 (Decimal 40)])) 3 = Inr ''I''"
  using status_stays_Initialized [of "account_state (Decimal 0) [deposit 1 (Decimal 100), withdrawal 2 (Decimal 40)]" 3
      "[Execute 2, Execute 3, Undo 3, Undo 2, Execute 3]"]
  by (simp add: status_of_def lookup_def account_state_def withdrawal_def status_def)

section \<open>The history of an account\<close>

lemma history_of_view:
  "history_of s a =
     (if a < length (heap s) then
        (case map history_view (heap s) ! a of
           Inr (Some l) \<Rightarrow>
             (if l < length (heap s) then
                (case map history_view (heap s) ! l of Inl xs \<Rightarrow> Some xs | Inr x \<Rightarrow> None)
              else None)
         | _ \<Rightarrow> None)
      else None)"
proof (cases "heap s ! a")
  case (ObjBankAccount acc)
  then show ?thesis
    by (cases "heap s ! BankAccount_operations_history acc") (simp_all add: history_of_def lookup_def)
qed (simp_all add: history_of_def lookup_def)

lemma history_undo: "history_of (snd (undo self s)) a = history_of s a"
proof -
  have v: "map history_view (heap (snd (undo self s))) = map history_view (heap s)"
    by (rule view_undo) simp_all
  show ?thesis
    unfolding history_of_view v length_view [OF v] ..
qed


lemma lookup_store:
  "lookup (store s a x) b = (if b < length (heap s) then (if b = a then Some x else lookup s b) else None)"
  by (simp add: lookup_def store_def)

lemma store_store: "store (store s a x) a y = store s a y"
  by (simp add: store_def)

lemma py_str_store_list:
  assumes "lookup s r = Some (ObjList xs)"
  shows "py_str (store s r (ObjList ys)) x = py_str s x"
proof (cases x)
  case (Ref a)
  show ?thesis
  proof (cases "a = r")
    case True
    with assms Ref show ?thesis
      by (auto simp: py_str_def lookup_store dest: lookup_Some)
  next
    case False
    with Ref show ?thesis
      by (simp add: py_str_def lookup_def store_def)
  qed
qed (simp_all add: py_str_def)

lemma history_loop_strings:
  assumes "lookup s result = Some (ObjList acc)" "map (py_str s) entries = map Inr texts"
  shows "history_loop entries result s = (Inr (), store s result (ObjList (acc @ map StrV texts)))"
  using assms
proof (induction entries arbitrary: s acc texts)
  case Nil
  then have "heap s ! result = ObjList acc" "result < length (heap s)"
    by (auto dest: lookup_Some)
  then have "(heap s)[result := ObjList acc] = heap s"
    by (metis list_update_id)
  then have "store s result (ObjList acc) = s"
    by (simp add: store_def)
  with Nil show ?case by simp
next
  case (Cons operation rest)
  from Cons.prems(2) obtain t ts where texts: "texts = t # ts" "py_str s operation = Inr t"
    "map (py_str s) rest = map Inr ts"
    by (cases texts) auto
  let ?s1 = "store s result (ObjList (acc @ [StrV t]))"
  have app: "list_append s (Ref result) (StrV t) = (Inr (), ?s1)"
    using Cons.prems(1) by (simp add: list_append_def)
  have l1: "lookup ?s1 result = Some (ObjList (acc @ [StrV t]))"
    using Cons.prems(1) by (auto simp: lookup_store dest: lookup_Some)
  have "py_str ?s1 = py_str s"
    by (rule ext) (rule py_str_store_list [OF Cons.prems(1)])
  then have m1: "map (py_str ?s1) rest = map Inr ts"
    using texts(3) by simp
  have "history_loop rest result ?s1 = (Inr (), store ?s1 result (ObjList ((acc @ [StrV t]) @ map StrV ts)))"
    using l1 m1 by (rule Cons.IH)
  then show ?case
    using texts app by (simp add: store_store)
qed

lemma lookup_alloc_old: "a < length (heap s) \<Longrightarrow> lookup (snd (alloc s x)) a = lookup s a"
  by (simp add: lookup_def alloc_def nth_append)

lemma lookup_alloc_new: "lookup (snd (alloc s x)) (length (heap s)) = Some x"
  by (simp add: lookup_def alloc_def)

lemma py_str_alloc_list: "py_str (snd (alloc s (ObjList ys))) x = py_str s x"
proof (cases x)
  case (Ref a)
  consider "a < length (heap s)" | "a = length (heap s)" | "length (heap s) < a" by linarith
  then show ?thesis
  proof cases
    case 1
    with Ref show ?thesis by (simp add: py_str_def lookup_alloc_old)
  next
    case 2
    with Ref show ?thesis by (simp add: py_str_def lookup_alloc_new) (simp add: lookup_def)
  next
    case 3
    with Ref show ?thesis by (simp add: py_str_def) (simp add: lookup_def alloc_def)
  qed
qed (simp_all add: py_str_def)

lemma history_of_Some:
  "history_of s a = Some entries \<Longrightarrow>
   \<exists>acc. lookup s a = Some (ObjBankAccount acc) \<and>
     lookup s (BankAccount_operations_history acc) = Some (ObjList entries)"
  by (auto simp: history_of_def split: option.splits obj.splits)

lemma operations_history_copy:
  assumes "history_of s a = Some entries" "map (py_str s) entries = map Inr texts"
  shows "operations_history a s =
     (Inr (length (heap s)), s\<lparr>heap := heap s @ [ObjList (map StrV texts)]\<rparr>)"
proof -
  from assms(1) obtain acc where acc: "lookup s a = Some (ObjBankAccount acc)"
    "lookup s (BankAccount_operations_history acc) = Some (ObjList entries)"
    by (auto dest: history_of_Some)
  define s1 where "s1 = s\<lparr>heap := heap s @ [ObjList []]\<rparr>"
  have a1: "alloc s (ObjList []) = (length (heap s), s1)"
    by (simp add: alloc_def s1_def)
  then have s1: "snd (alloc s (ObjList [])) = s1"
    by simp
  from acc(2) have "BankAccount_operations_history acc < length (heap s)"
    by (auto dest: lookup_Some)
  then have h: "lookup s1 (BankAccount_operations_history acc) = Some (ObjList entries)"
    using acc(2) lookup_alloc_old [of "BankAccount_operations_history acc" s "ObjList []"]
    by (simp add: s1)
  have new: "lookup s1 (length (heap s)) = Some (ObjList [])"
    using lookup_alloc_new [of s "ObjList []"] by (simp add: s1)
  have "py_str s1 = py_str s"
    using py_str_alloc_list [of s "[]"] by (auto simp: s1)
  then have m: "map (py_str s1) entries = map Inr texts"
    using assms(2) by simp
  have loop: "history_loop entries (length (heap s)) s1 =
      (Inr (), store s1 (length (heap s)) (ObjList ([] @ map StrV texts)))"
    using new m by (rule history_loop_strings)
  have fin: "store s1 (length (heap s)) (ObjList ([] @ map StrV texts)) =
      s\<lparr>heap := heap s @ [ObjList (map StrV texts)]\<rparr>"
    by (simp add: store_def s1_def)
  show ?thesis
    using acc(1) h loop fin by (simp add: operations_history_def a1)
qed

text \<open>
  C7. \<^verbatim>\<open>undo()\<close> leaves the history of every account as it was, whatever it returns or
  raises. The property \<^verbatim>\<open>operations_history\<close> of an account whose history entries are
  operations returns a list at an address no object had before the call, holding
  \<^verbatim>\<open>str\<close> of each entry in order; the objects that existed are unchanged, the history
  of the account among them.
\<close>

theorem undo_keeps_history_accessor_copies:
  "history_of (snd (undo self s)) a = history_of s a \<and>
   (history_of s a = Some entries \<longrightarrow> map (py_str s) entries = map Inr texts \<longrightarrow>
      lookup s (length (heap s)) = None \<and>
      operations_history a s =
        (Inr (length (heap s)), s\<lparr>heap := heap s @ [ObjList (map StrV texts)]\<rparr>) \<and>
      history_of (snd (operations_history a s)) a = Some entries)"
proof (intro conjI impI)
  show "history_of (snd (undo self s)) a = history_of s a"
    by (rule history_undo)
next
  show "lookup s (length (heap s)) = None"
    by (simp add: lookup_def)
next
  assume h: "history_of s a = Some entries" "map (py_str s) entries = map Inr texts"
  then show c: "operations_history a s =
        (Inr (length (heap s)), s\<lparr>heap := heap s @ [ObjList (map StrV texts)]\<rparr>)"
    by (rule operations_history_copy)
  from h(1) obtain acc where acc: "lookup s a = Some (ObjBankAccount acc)"
    "lookup s (BankAccount_operations_history acc) = Some (ObjList entries)"
    by (auto dest: history_of_Some)
  then have "a < length (heap s)" "BankAccount_operations_history acc < length (heap s)"
    by (auto dest: lookup_Some)
  with acc have "history_of (snd (alloc s (ObjList (map StrV texts)))) a = Some entries"
    by (simp add: history_of_def lookup_alloc_old)
  then show "history_of (snd (operations_history a s)) a = Some entries"
    by (simp add: c alloc_def)
qed

section \<open>Evaluating the model\<close>

lemmas model_defs =
  execute_def undo_def DepositOperation_execute_def DepositOperation_undo_def
  WithdrawalOperation_execute_def WithdrawalOperation_undo_def
  iadd_balance_def isub_balance_def balance_negative_def balance_minus_negative_def
  getattr_def BankAccount_getattr_def getattr_balance_def setattr_balance_def list_append_def
  lookup_def store_def print_line_def status_def status_of_def balance_of_def history_of_def balance_def
  account_state_def deposit_def withdrawal_def Decimal_def module_state_def with_history_def
  DepositOperation_str_def WithdrawalOperation_str_def str_int_def str_nat.simps digit_char_def

lemmas decimal_defs =
  dec_add_def dec_sub_def dec_mul_def dec_fix_def signed_def ndigits.simps prec_def Emax_def Emin_def
  Etiny_def Etop_def round_half_even_def fix_nan_def

lemmas init_defs =
  BankAccount_init_def DepositOperation_init_def WithdrawalOperation_init_def
  InterestAccrualOperation_init_def Operation_init_def load_local_def as_BankAccount_def
  isinstance_BankAccount_def isinstance_Decimal_def alloc_result_def alloc_def

theorem undo_keeps_history_accessor_copies_witness:
  "fst (undo 2 (with_history [Ref 2, Ref 3] (account_state (Decimal 60)
      [executed (deposit 1 (Decimal 100)), executed (withdrawal 3 (Decimal 40))]))) = Inr True \<and>
   history_of (snd (undo 2 (with_history [Ref 2, Ref 3] (account_state (Decimal 60)
      [executed (deposit 1 (Decimal 100)), executed (withdrawal 3 (Decimal 40))])))) 1 =
     Some [Ref 2, Ref 3] \<and>
   history_of (with_history [Ref 2, Ref 3] (account_state (Decimal 60)
      [executed (deposit 1 (Decimal 100)), executed (withdrawal 3 (Decimal 40))])) 1 =
     Some [Ref 2, Ref 3] \<and>
   map (py_str (with_history [Ref 2, Ref 3] (account_state (Decimal 60)
      [executed (deposit 1 (Decimal 100)), executed (withdrawal 3 (Decimal 40))]))) [Ref 2, Ref 3] =
     map Inr [''1: DepositOperation'', ''3: WithdrawalOperation''] \<and>
   fst (operations_history 1 (with_history [Ref 2, Ref 3] (account_state (Decimal 60)
      [executed (deposit 1 (Decimal 100)), executed (withdrawal 3 (Decimal 40))]))) = Inr 4 \<and>
   lookup (snd (operations_history 1 (with_history [Ref 2, Ref 3] (account_state (Decimal 60)
      [executed (deposit 1 (Decimal 100)), executed (withdrawal 3 (Decimal 40))])))) 4 =
     Some (ObjList [StrV ''1: DepositOperation'', StrV ''3: WithdrawalOperation'']) \<and>
   history_of (snd (operations_history 1 (with_history [Ref 2, Ref 3] (account_state (Decimal 60)
      [executed (deposit 1 (Decimal 100)), executed (withdrawal 3 (Decimal 40))])))) 1 =
     Some [Ref 2, Ref 3]"
proof -
  define s where "s = with_history [Ref 2, Ref 3] (account_state (Decimal 60)
      [executed (deposit 1 (Decimal 100)), executed (withdrawal 3 (Decimal 40))])"
  have h: "history_of s 1 = Some [Ref 2, Ref 3]"
    by (simp add: s_def model_defs)
  have m: "map (py_str s) [Ref 2, Ref 3] =
      map Inr [''1: DepositOperation'', ''3: WithdrawalOperation'']"
    by (simp add: s_def py_str_def model_defs)
  have u: "fst (undo 2 s) = Inr True"
    by (simp add: s_def model_defs decimal_defs)
  have n: "length (heap s) = 4"
    by (simp add: s_def model_defs)
  note claim = undo_keeps_history_accessor_copies
      [of 2 s 1 "[Ref 2, Ref 3]" "[''1: DepositOperation'', ''3: WithdrawalOperation'']"]
  from claim have kept: "history_of (snd (undo 2 s)) 1 = history_of s 1"
    by (rule conjunct1)
  from claim h m have copy: "operations_history 1 s =
      (Inr (length (heap s)),
       s\<lparr>heap := heap s @ [ObjList (map StrV [''1: DepositOperation'', ''3: WithdrawalOperation''])]\<rparr>)"
    by blast
  from claim h m have log: "history_of (snd (operations_history 1 s)) 1 = Some [Ref 2, Ref 3]"
    by blast
  have new: "lookup (snd (operations_history 1 s)) 4 =
      Some (ObjList [StrV ''1: DepositOperation'', StrV ''3: WithdrawalOperation''])"
    unfolding copy using n by (simp add: lookup_def nth_append)
  have res: "fst (operations_history 1 s) = Inr 4"
    unfolding copy using n by simp
  show ?thesis
    unfolding s_def [symmetric]
    using u kept h m res new log by simp
qed

section \<open>The constructors\<close>

text \<open>
  C8. A constructor given an argument of the wrong type raises ValueError and leaves the
  state as it was, so it constructs nothing: \<^verbatim>\<open>BankAccount\<close> for a value that is no
  \<^verbatim>\<open>User\<close>; \<^verbatim>\<open>DepositOperation\<close>, \<^verbatim>\<open>WithdrawalOperation\<close> and
  \<^verbatim>\<open>InterestAccrualOperation\<close> for a first argument that is no \<^verbatim>\<open>BankAccount\<close>, and, with
  an account, for a second argument that is no \<^verbatim>\<open>Decimal\<close>. No argument is converted.
\<close>

theorem constructors_reject_wrong_types:
  "(\<not> isinstance_User other \<longrightarrow>
      BankAccount_init other s = (Inl (ValueError ''user must be instance of user class''), s)) \<and>
   (\<not> isinstance_BankAccount s other \<longrightarrow>
      DepositOperation_init other val content s =
        (Inl (ValueError ''bank_account must be instance of BankAccount class''), s) \<and>
      WithdrawalOperation_init other val content s =
        (Inl (ValueError ''bank_account must be instance of BankAccount class''), s) \<and>
      InterestAccrualOperation_init other val s =
        (Inl (ValueError ''bank_account must be instance of BankAccount class''), s)) \<and>
   (isinstance_BankAccount s bank_account \<longrightarrow> \<not> isinstance_Decimal other \<longrightarrow>
      DepositOperation_init bank_account other content s =
        (Inl (ValueError ''value must be instance of Decimal class''), s) \<and>
      WithdrawalOperation_init bank_account other content s =
        (Inl (ValueError ''value must be instance of Decimal class''), s) \<and>
      InterestAccrualOperation_init bank_account other s =
        (Inl (ValueError ''rate must be instance of Decimal class''), s))"
  by (simp add: BankAccount_init_def DepositOperation_init_def WithdrawalOperation_init_def
      InterestAccrualOperation_init_def isinstance_BankAccount_def isinstance_Decimal_def
      split: option.splits prod.splits)

theorem constructors_reject_wrong_types_witness:
  "\<not> isinstance_User (IntV 7) \<and>
   BankAccount_init (IntV 7) (account_state (Decimal 0) []) =
     (Inl (ValueError ''user must be instance of user class''), account_state (Decimal 0) []) \<and>
   \<not> isinstance_BankAccount (account_state (Decimal 0) []) (IntV 7) \<and>
   DepositOperation_init (IntV 7) (DecimalV (Decimal 5)) NoneV (account_state (Decimal 0) []) =
     (Inl (ValueError ''bank_account must be instance of BankAccount class''),
      account_state (Decimal 0) []) \<and>
   WithdrawalOperation_init (IntV 7) (DecimalV (Decimal 5)) NoneV (account_state (Decimal 0) []) =
     (Inl (ValueError ''bank_account must be instance of BankAccount class''),
      account_state (Decimal 0) []) \<and>
   InterestAccrualOperation_init (IntV 7) (DecimalV (Decimal 5)) (account_state (Decimal 0) []) =
     (Inl (ValueError ''bank_account must be instance of BankAccount class''),
      account_state (Decimal 0) []) \<and>
   isinstance_BankAccount (account_state (Decimal 0) []) (Ref 1) \<and>
   \<not> isinstance_Decimal (IntV 7) \<and>
   DepositOperation_init (Ref 1) (IntV 7) NoneV (account_state (Decimal 0) []) =
     (Inl (ValueError ''value must be instance of Decimal class''), account_state (Decimal 0) []) \<and>
   WithdrawalOperation_init (Ref 1) (IntV 7) NoneV (account_state (Decimal 0) []) =
     (Inl (ValueError ''value must be instance of Decimal class''), account_state (Decimal 0) []) \<and>
   InterestAccrualOperation_init (Ref 1) (IntV 7) (account_state (Decimal 0) []) =
     (Inl (ValueError ''rate must be instance of Decimal class''), account_state (Decimal 0) [])"
proof -
  have u: "\<not> isinstance_User (IntV 7)"
    by simp
  have a: "\<not> isinstance_BankAccount (account_state (Decimal 0) []) (IntV 7)"
    by (simp add: isinstance_BankAccount_def as_BankAccount_def)
  have b: "isinstance_BankAccount (account_state (Decimal 0) []) (Ref 1)"
    by (simp add: isinstance_BankAccount_def as_BankAccount_def model_defs)
  have d: "\<not> isinstance_Decimal (IntV 7)"
    by (simp add: isinstance_Decimal_def)
  show ?thesis
    using constructors_reject_wrong_types
      [of "IntV 7" "account_state (Decimal 0) []" "DecimalV (Decimal 5)" NoneV "Ref 1"] u a b d
    by simp
qed

text \<open>
  C10, as amended. With arguments of the right types no constructor returns an instance,
  and none changes the state: \<^verbatim>\<open>BankAccount\<close>, \<^verbatim>\<open>DepositOperation\<close> and
  \<^verbatim>\<open>WithdrawalOperation\<close> raise UnboundLocalError at the counter statement;
  \<^verbatim>\<open>InterestAccrualOperation\<close> first computes \<^verbatim>\<open>rate * bank_account.balance\<close> and raises
  the decimal exception of that product if it has one, UnboundLocalError otherwise.
\<close>

theorem constructors_never_return:
  "(isinstance_User user \<longrightarrow>
      BankAccount_init user s = (Inl (UnboundLocalError ''id_counter''), s)) \<and>
   (isinstance_BankAccount s bank_account \<longrightarrow> isinstance_Decimal val \<longrightarrow>
      DepositOperation_init bank_account val content s =
        (Inl (UnboundLocalError ''operation_id_counter''), s) \<and>
      WithdrawalOperation_init bank_account val content s =
        (Inl (UnboundLocalError ''operation_id_counter''), s)) \<and>
   (as_BankAccount s bank_account = Some (a, acc) \<longrightarrow> as_Decimal rate = Some r \<longrightarrow>
      InterestAccrualOperation_init bank_account rate s =
        (case dec_mul r (balance acc) of
           Inl sig \<Rightarrow> (Inl (DecimalException sig), s)
         | Inr product \<Rightarrow> (Inl (UnboundLocalError ''operation_id_counter''), s)))"
  by (auto simp: BankAccount_init_def DepositOperation_init_def WithdrawalOperation_init_def
      InterestAccrualOperation_init_def isinstance_BankAccount_def isinstance_Decimal_def
      Operation_init_def load_local_def split: sum.splits)

theorem constructors_never_return_witness:
  "isinstance_User (UserV (User 0)) \<and>
   BankAccount_init (UserV (User 0)) (account_state (Decimal 100) []) =
     (Inl (UnboundLocalError ''id_counter''), account_state (Decimal 100) []) \<and>
   isinstance_BankAccount (account_state (Decimal 100) []) (Ref 1) \<and>
   isinstance_Decimal (DecimalV (Decimal 40)) \<and>
   DepositOperation_init (Ref 1) (DecimalV (Decimal 40)) (StrV ''salary'')
       (account_state (Decimal 100) []) =
     (Inl (UnboundLocalError ''operation_id_counter''), account_state (Decimal 100) []) \<and>
   WithdrawalOperation_init (Ref 1) (DecimalV (Decimal 40)) (StrV ''salary'')
       (account_state (Decimal 100) []) =
     (Inl (UnboundLocalError ''operation_id_counter''), account_state (Decimal 100) []) \<and>
   as_Decimal (DecimalV (Finite False 5 (- 2))) = Some (Finite False 5 (- 2)) \<and>
   dec_mul (Finite False 5 (- 2)) (Decimal 100) = Inr (Finite False 500 (- 2)) \<and>
   InterestAccrualOperation_init (Ref 1) (DecimalV (Finite False 5 (- 2)))
       (account_state (Decimal 100) []) =
     (Inl (UnboundLocalError ''operation_id_counter''), account_state (Decimal 100) [])"
proof -
  have u: "isinstance_User (UserV (User 0))"
    by simp
  have b: "as_BankAccount (account_state (Decimal 100) []) (Ref 1) =
      Some (1, \<lparr>BankAccount__id = 1, BankAccount__user = UserV (User 0),
                BankAccount_balance = Decimal 100, BankAccount_operations_history = 0\<rparr>)"
    by (simp add: as_BankAccount_def model_defs)
  then have i: "isinstance_BankAccount (account_state (Decimal 100) []) (Ref 1)"
    by (simp add: isinstance_BankAccount_def)
  have d: "isinstance_Decimal (DecimalV (Decimal 40))"
    by (simp add: isinstance_Decimal_def)
  have r: "as_Decimal (DecimalV (Finite False 5 (- 2))) = Some (Finite False 5 (- 2))"
    by simp
  have p: "dec_mul (Finite False 5 (- 2)) (Decimal 100) = Inr (Finite False 500 (- 2))"
    by (simp add: Decimal_def decimal_defs)
  show ?thesis
    using constructors_never_return
      [of "UserV (User 0)" "account_state (Decimal 100) []" "Ref 1" "DecimalV (Decimal 40)"
        "StrV ''salary''" 1
        "\<lparr>BankAccount__id = 1, BankAccount__user = UserV (User 0),
          BankAccount_balance = Decimal 100, BankAccount_operations_history = 0\<rparr>"
        "DecimalV (Finite False 5 (- 2))" "Finite False 5 (- 2)"] u b i d r p
    by (simp add: balance_def)
qed

text \<open>
  C10 as stated fails: with an account whose balance is \<^verbatim>\<open>Decimal('0')\<close> and the rate
  \<^verbatim>\<open>Decimal('Infinity')\<close>, both of the right types, \<^verbatim>\<open>InterestAccrualOperation\<close> raises
  InvalidOperation from the product, not UnboundLocalError.
\<close>

theorem interest_accrual_raises_InvalidOperation:
  "isinstance_BankAccount (account_state (Decimal 0) []) (Ref 1) \<and>
   isinstance_Decimal (DecimalV (Infinity False)) \<and>
   InterestAccrualOperation_init (Ref 1) (DecimalV (Infinity False)) (account_state (Decimal 0) []) =
     (Inl (DecimalException InvalidOperation), account_state (Decimal 0) []) \<and>
   fst (InterestAccrualOperation_init (Ref 1) (DecimalV (Infinity False)) (account_state (Decimal 0) []))
     \<noteq> Inl (UnboundLocalError ''operation_id_counter'')"
  by (simp add: init_defs model_defs decimal_defs)

text \<open>
  C6. No id is ever assigned: from the state of the loaded modules \<^verbatim>\<open>BankAccount(user)\<close>
  raises UnboundLocalError for \<^verbatim>\<open>id_counter\<close>, and on an account the two operation
  constructors raise it for \<^verbatim>\<open>operation_id_counter\<close>; both counters are still 0.
\<close>

theorem no_id_is_assigned:
  "BankAccount_init (UserV (User 0)) module_state = (Inl (UnboundLocalError ''id_counter''), module_state) \<and>
   DepositOperation_init (Ref 1) (DecimalV (Decimal 100)) (StrV ''salary'') (account_state (Decimal 0) []) =
     (Inl (UnboundLocalError ''operation_id_counter''), account_state (Decimal 0) []) \<and>
   WithdrawalOperation_init (Ref 1) (DecimalV (Decimal 100)) (StrV ''rent'') (account_state (Decimal 0) []) =
     (Inl (UnboundLocalError ''operation_id_counter''), account_state (Decimal 0) [])"
  by (simp add: init_defs model_defs)

text \<open>
  C5. \<^verbatim>\<open>InterestAccrualOperation(account, Decimal('0.05'))\<close> on an account with balance 100
  computes the amount and then raises UnboundLocalError: there is no operation to execute.
\<close>

theorem interest_accrual_not_constructed:
  "InterestAccrualOperation_init (Ref 1) (DecimalV (Finite False 5 (- 2))) (account_state (Decimal 100) []) =
     (Inl (UnboundLocalError ''operation_id_counter''), account_state (Decimal 100) [])"
  by (simp add: init_defs model_defs decimal_defs)

section \<open>execute and undo\<close>

text \<open>
  The history is read under the name \<^verbatim>\<open>_operation_history\<close>, which no account has, so
  \<^verbatim>\<open>execute\<close> never reaches its last statements: on no object and in no state does it
  return \<^verbatim>\<open>True\<close>. The guards themselves work on the status the property reads.
\<close>

lemma getattr_operation_history:
  "getattr s a ''_operation_history'' = Inl (AttributeError ''_operation_history'')"
  by (simp add: getattr_def BankAccount_getattr_def split: option.splits obj.splits)

lemma execute_never_True: "fst (execute self s) \<noteq> Inr True"
  by (simp add: execute_def DepositOperation_execute_def WithdrawalOperation_execute_def
      getattr_operation_history split: option.splits obj.splits prod.splits sum.splits bool.splits)

lemma execute_guard:
  "status_of s self = Inr st \<Longrightarrow> st \<noteq> ''I'' \<Longrightarrow> execute self s = (Inr False, s)"
  by (auto simp: status_of_def execute_def DepositOperation_execute_def
      WithdrawalOperation_execute_def split: option.splits obj.splits)

lemma undo_guard:
  "status_of s self = Inr st \<Longrightarrow> st \<noteq> ''D'' \<Longrightarrow> undo self s = (Inr False, s)"
  by (auto simp: status_of_def undo_def DepositOperation_undo_def
      WithdrawalOperation_undo_def split: option.splits obj.splits)

text \<open>
  C1. A deposit of 100 with status \<^verbatim>\<open>'I'\<close> on an account with balance 0: \<^verbatim>\<open>execute()\<close>
  raises AttributeError after the balance became 100; the history is still empty, no
  status was assigned and nothing is returned.
\<close>

theorem deposit_execute_raises:
  "execute 2 (account_state (Decimal 0) [deposit 1 (Decimal 100)]) =
     (Inl (AttributeError ''_operation_history''),
      account_state (Decimal 100) [deposit 1 (Decimal 100)])"
  by (simp add: model_defs decimal_defs)

text \<open>
  C2. On an account with balance 100: a withdrawal of 150 returns \<^verbatim>\<open>False\<close> and leaves
  balance and history, but the status it sets is \<open>WithdrawalOperation__status\<close>, and
  \<^verbatim>\<open>status\<close> is still \<^verbatim>\<open>'I'\<close>; a withdrawal of 40 raises AttributeError after the balance
  became 60.
\<close>

theorem withdrawal_execute_outcomes:
  "execute 2 (account_state (Decimal 100) [withdrawal 1 (Decimal 150)]) =
     (Inr False,
      account_state (Decimal 100) [ObjWithdrawal
        \<lparr>Operation__id = 1, Operation__status = ''I'', Operation__content = StrV [],
         WithdrawalOperation__bank_account = 1, WithdrawalOperation__value = Decimal 150,
         WithdrawalOperation__status = Some ''E''\<rparr>]) \<and>
   status_of (snd (execute 2 (account_state (Decimal 100) [withdrawal 1 (Decimal 150)]))) 2 = Inr ''I'' \<and>
   execute 2 (account_state (Decimal 100) [withdrawal 1 (Decimal 40)]) =
     (Inl (AttributeError ''_operation_history''),
      account_state (Decimal 60) [withdrawal 1 (Decimal 40)])"
  by (simp add: model_defs decimal_defs)

text \<open>
  C3. A deposit of 100 on an account with balance 0: \<^verbatim>\<open>execute()\<close> raises with the balance
  at 100, \<^verbatim>\<open>undo()\<close> then returns \<^verbatim>\<open>False\<close> (the status is still \<^verbatim>\<open>'I'\<close>), and the
  balance stays 100 instead of returning to 0.
\<close>

theorem execute_then_undo_keeps_deposit:
  "execute 2 (account_state (Decimal 0) [deposit 1 (Decimal 100)]) =
     (Inl (AttributeError ''_operation_history''), account_state (Decimal 100) [deposit 1 (Decimal 100)]) \<and>
   undo 2 (account_state (Decimal 100) [deposit 1 (Decimal 100)]) =
     (Inr False, account_state (Decimal 100) [deposit 1 (Decimal 100)]) \<and>
   balance_of (account_state (Decimal 0) [deposit 1 (Decimal 100)]) 1 = Some (Decimal 0) \<and>
   balance_of (snd (undo 2 (snd (execute 2 (account_state (Decimal 0) [deposit 1 (Decimal 100)]))))) 1
     = Some (Decimal 100)"
  by (simp add: model_defs decimal_defs)

text \<open>
  C4. A second \<^verbatim>\<open>execute()\<close> of the same deposit is not stopped by the guard: it raises
  again and the balance is 200.
\<close>

theorem second_execute_runs_again:
  "execute 2 (snd (execute 2 (account_state (Decimal 0) [deposit 1 (Decimal 100)]))) =
     (Inl (AttributeError ''_operation_history''),
      account_state (Decimal 200) [deposit 1 (Decimal 100)])"
  by (simp add: model_defs decimal_defs)

end
